theory Spec2Isabelle
  imports Main
begin

section \<open>push.js: pushing files to GitHub through the contents API\<close>

text \<open>
  A shallow embedding of \<^verbatim>\<open>src/push.js\<close>. The script is one sequential flow: parse the
  command line, resolve branch, repository, token and file list, make sure the target branch
  exists, then upload the files one by one and print three counters.

  Everything the script reads from outside is a field of the record \<open>world\<close>: the command
  line, the environment variables, the output of the three \<^verbatim>\<open>git\<close> commands, the file
  system and the answers of the remote API. Everything it does to the outside that the
  properties speak about is in the record \<open>run\<close>: the exit code, the list of network requests
  in the order they were sent, and the numbers of the summary line.

  A JavaScript string is modelled as a \<open>string\<close>; a \<open>char\<close> stands for one code unit in
  the range 0 to 255. A value that is a string, \<^verbatim>\<open>null\<close> or \<^verbatim>\<open>undefined\<close> is a
  \<open>string option\<close>, with \<open>None\<close> for both \<^verbatim>\<open>null\<close> and \<^verbatim>\<open>undefined\<close>.
\<close>

subsection \<open>Strings\<close>

text \<open>
  \<^verbatim>\<open>String.prototype.trim\<close> removes white space and line terminators at both ends. Among
  the code units 0 to 255 these are tab, line feed, vertical tab, form feed, carriage
  return, space and the no-break space.
\<close>

definition is_space :: "char \<Rightarrow> bool" where
  "is_space c = (c \<in> set [CHR 0x09, CHR 0x0A, CHR 0x0B, CHR 0x0C, CHR 0x0D, CHR 0x20, CHR 0xA0])"

definition trim :: "string \<Rightarrow> string" where
  "trim s = rev (dropWhile is_space (rev (dropWhile is_space s)))"

definition startsWith :: "string \<Rightarrow> string \<Rightarrow> bool" where
  "startsWith s p = (take (length p) s = p)"

text \<open>
  \<^verbatim>\<open>s.split(sep)\<close> for a separator of one character: the pieces between the separators,
  empty pieces included; the empty string gives one empty piece.
\<close>

fun split :: "char \<Rightarrow> string \<Rightarrow> string list" where
  "split sep [] = ['''']"
| "split sep (c # cs) =
     (if c = sep then [] # split sep cs
      else (case split sep cs of
              [] \<Rightarrow> [c # '''']
            | piece # pieces \<Rightarrow> (c # piece) # pieces))"

text \<open>Truthiness of a value that is a string, \<^verbatim>\<open>null\<close> or \<^verbatim>\<open>undefined\<close>.\<close>

fun truthy_str :: "string option \<Rightarrow> bool" where
  "truthy_str None = False"
| "truthy_str (Some s) = (s \<noteq> [])"

text \<open>\<^verbatim>\<open>a || b\<close> on such values.\<close>

definition or_else :: "string option \<Rightarrow> string option \<Rightarrow> string option" where
  "or_else a b = (if truthy_str a then a else b)"

subsection \<open>JSON values and property access\<close>

text \<open>
  What \<^verbatim>\<open>response.json()\<close> resolves to. Numbers are integers here: the script only tests
  a number for being zero. The fields of an object are an association list with distinct
  keys.
\<close>

datatype json =
    JNull
  | JBool bool
  | JNum int
  | JStr string
  | JArr "json list"
  | JObj "(string \<times> json) list"

datatype js_exn =
    TypeError
  | FetchError string
  | ReadError string

text \<open>
  \<^verbatim>\<open>v.k\<close> for one of the names the script reads (\<^verbatim>\<open>message\<close>, \<^verbatim>\<open>object\<close>,
  \<^verbatim>\<open>sha\<close>, \<^verbatim>\<open>ref\<close>, \<^verbatim>\<open>content\<close>): reading a property of \<^verbatim>\<open>null\<close> throws a
  TypeError, an object gives the field or \<^verbatim>\<open>undefined\<close> (\<open>None\<close>), every other value
  gives \<^verbatim>\<open>undefined\<close>.
\<close>

fun get_prop :: "json \<Rightarrow> string \<Rightarrow> js_exn + json option" where
  "get_prop JNull k = Inl TypeError"
| "get_prop (JObj kvs) k = Inr (map_of kvs k)"
| "get_prop (JBool b) k = Inr None"
| "get_prop (JNum n) k = Inr None"
| "get_prop (JStr s) k = Inr None"
| "get_prop (JArr xs) k = Inr None"

fun truthy :: "json option \<Rightarrow> bool" where
  "truthy None = False"
| "truthy (Some JNull) = False"
| "truthy (Some (JBool b)) = b"
| "truthy (Some (JNum n)) = (n \<noteq> 0)"
| "truthy (Some (JStr s)) = (s \<noteq> [])"
| "truthy (Some (JArr xs)) = True"
| "truthy (Some (JObj kvs)) = True"

text \<open>
  \<^verbatim>\<open>mainRef.object?.sha\<close>: the optional chain stops with \<^verbatim>\<open>undefined\<close> when
  \<^verbatim>\<open>mainRef.object\<close> is \<^verbatim>\<open>null\<close> or \<^verbatim>\<open>undefined\<close>.
\<close>

definition object_sha :: "json \<Rightarrow> js_exn + json option" where
  "object_sha mainRef =
     (case get_prop mainRef ''object'' of
        Inl e \<Rightarrow> Inl e
      | Inr None \<Rightarrow> Inr None
      | Inr (Some JNull) \<Rightarrow> Inr None
      | Inr (Some ob) \<Rightarrow> get_prop ob ''sha'')"

text \<open>
  Object spread and property assignment on an object whose fields are kept in insertion
  order: an existing key keeps its place and takes the new value, a new key goes to the end.
\<close>

fun assign :: "'k \<Rightarrow> 'v \<Rightarrow> ('k \<times> 'v) list \<Rightarrow> ('k \<times> 'v) list" where
  "assign k v [] = [(k, v)]"
| "assign k v (p # ps) = (if fst p = k then (k, v) # ps else p # assign k v ps)"

definition spread :: "('k \<times> 'v) list \<Rightarrow> ('k \<times> 'v) list \<Rightarrow> ('k \<times> 'v) list" where
  "spread base ext = fold (\<lambda>(k, v). assign k v) ext base"

subsection \<open>The outside world\<close>

datatype http_method = GET | POST | PUT

record request =
  meth :: http_method
  url :: string
  headers :: "(string \<times> string) list"
  body :: "json option"

text \<open>
  What \<^verbatim>\<open>fs.existsSync\<close>, \<^verbatim>\<open>fs.statSync\<close> and \<^verbatim>\<open>fs.readFileSync\<close> see at a path:
  nothing, a directory, or something else, whose read gives its bytes or throws. The file
  system does not change during a run.
\<close>

datatype fs_entry =
    Directory
  | File "js_exn + string"

text \<open>
  \<^item> \<open>argv\<close> is \<^verbatim>\<open>process.argv.slice(2)\<close>;
  \<^item> \<open>env_GITHUB_TOKEN\<close>, \<open>env_HTTPS_PROXY\<close>, \<open>env_HTTP_PROXY\<close> are the environment
    variables, \<open>None\<close> when unset;
  \<^item> \<open>git_branch\<close>, \<open>git_remote\<close>, \<open>git_ls_files\<close> are the outputs of
    \<^verbatim>\<open>git rev-parse --abbrev-ref HEAD\<close>, \<^verbatim>\<open>git remote get-url origin\<close> and
    \<^verbatim>\<open>git ls-files\<close>, \<open>None\<close> when \<^verbatim>\<open>execSync\<close> throws;
  \<^item> \<open>node_fetch\<close> says whether \<^verbatim>\<open>import('node-fetch')\<close> succeeds;
  \<^item> \<open>fs\<close> gives what is at \<^verbatim>\<open>path.resolve(file)\<close>, for \<^verbatim>\<open>file\<close> as the script has
    it;
  \<^item> \<open>base64\<close> is \<^verbatim>\<open>Buffer.toString('base64')\<close>;
  \<^item> \<open>net\<close> is the remote side: given the requests sent so far and the request sent now,
    either the parsed JSON body of the response, or the exception that \<^verbatim>\<open>fetch\<close> or
    \<^verbatim>\<open>response.json()\<close> throws.
\<close>

record world =
  argv :: "string list"
  env_GITHUB_TOKEN :: "string option"
  env_HTTPS_PROXY :: "string option"
  env_HTTP_PROXY :: "string option"
  git_branch :: "string option"
  git_remote :: "string option"
  git_ls_files :: "string option"
  node_fetch :: bool
  fs :: "string \<Rightarrow> fs_entry option"
  base64 :: "string \<Rightarrow> string"
  net :: "request list \<Rightarrow> request \<Rightarrow> js_exn + json"

subsection \<open>parseArgs\<close>

record options =
  branch :: "string option"
  repo :: "string option"
  token :: "string option"
  files :: "string list option"
  message :: "string option"
  create :: bool
  dryRun :: bool
  help_opt :: bool
  proxy :: "string option"

text \<open>
  The \<^verbatim>\<open>for\<close> loop of \<^verbatim>\<open>parseArgs\<close>. \<open>next\<close> is \<^verbatim>\<open>args[i + 1]\<close>, \<^verbatim>\<open>undefined\<close>
  after the last argument; an option with a value skips it with \<^verbatim>\<open>i++\<close>.
\<close>

fun parseArgs_loop :: "string list \<Rightarrow> options \<Rightarrow> options" where
  "parseArgs_loop [] opts = opts"
| "parseArgs_loop (arg # rest) opts =
     (let next = (case rest of [] \<Rightarrow> None | n # _ \<Rightarrow> Some n) in
      if arg = ''--branch'' \<or> arg = ''-b'' then
        parseArgs_loop (tl rest) (opts\<lparr>branch := next\<rparr>)
      else if arg = ''--repo'' \<or> arg = ''-r'' then
        parseArgs_loop (tl rest) (opts\<lparr>repo := next\<rparr>)
      else if arg = ''--token'' \<or> arg = ''-t'' then
        parseArgs_loop (tl rest) (opts\<lparr>token := next\<rparr>)
      else if arg = ''--files'' \<or> arg = ''-f'' then
        parseArgs_loop (tl rest)
          (opts\<lparr>files := (case next of
                              None \<Rightarrow> None
                            | Some n \<Rightarrow> if n \<noteq> [] then Some (map trim (split CHR '','' n))
                                        else None)\<rparr>)
      else if arg = ''--message'' \<or> arg = ''-m'' then
        parseArgs_loop (tl rest) (opts\<lparr>message := next\<rparr>)
      else if arg = ''--proxy'' \<or> arg = ''-p'' then
        parseArgs_loop (tl rest) (opts\<lparr>proxy := next\<rparr>)
      else if arg = ''--create'' then
        parseArgs_loop rest (opts\<lparr>create := True\<rparr>)
      else if arg = ''--no-create'' then
        parseArgs_loop rest (opts\<lparr>create := False\<rparr>)
      else if arg = ''--dry-run'' then
        parseArgs_loop rest (opts\<lparr>dryRun := True\<rparr>)
      else if arg = ''--help'' \<or> arg = ''-h'' then
        parseArgs_loop rest (opts\<lparr>help_opt := True\<rparr>)
      else if \<not> startsWith arg ''-'' \<and> \<not> truthy_str (branch opts) then
        parseArgs_loop rest (opts\<lparr>branch := Some arg\<rparr>)
      else parseArgs_loop rest opts)"

definition parseArgs :: "world \<Rightarrow> options" where
  "parseArgs w =
     parseArgs_loop (argv w)
       \<lparr>branch = None,
        repo = None,
        token = env_GITHUB_TOKEN w,
        files = None,
        message = Some ''Update'',
        create = True,
        dryRun = False,
        help_opt = False,
        proxy = or_else (or_else (env_HTTPS_PROXY w) (env_HTTP_PROXY w))
                  (Some ''http://127.0.0.1:3128'')\<rparr>"

subsection \<open>getGitBranch, getGitRepo, getTrackedFiles\<close>

definition getGitBranch :: "world \<Rightarrow> string" where
  "getGitBranch w = (case git_branch w of Some out \<Rightarrow> trim out | None \<Rightarrow> ''main'')"

text \<open>
  The regular expression \<^verbatim>\<open>/github\.com[/:]([\w-]+)\/([\w-]+)/\<close>. \<open>repo_char\<close> is the
  class \<^verbatim>\<open>[\w-]\<close>. \<open>match_here\<close> tries the expression at the start of the string: after
  \<^verbatim>\<open>github.com\<close> and one of \<^verbatim>\<open>/\<close> and \<^verbatim>\<open>:\<close>, the first group takes the longest run
  of class characters (a shorter one would be followed by a class character, not by the
  \<^verbatim>\<open>/\<close> that must follow), and the second group takes the longest run after that
  \<^verbatim>\<open>/\<close>. \<open>regex_match\<close> is the search from left to right for the first position where
  the expression matches.
\<close>

definition repo_char :: "char \<Rightarrow> bool" where
  "repo_char c =
     (c \<in> set (''abcdefghijklmnopqrstuvwxyz'' @ ''ABCDEFGHIJKLMNOPQRSTUVWXYZ''
                 @ ''0123456789'' @ ''_'' @ ''-''))"

definition match_here :: "string \<Rightarrow> (string \<times> string) option" where
  "match_here s =
     (if startsWith s ''github.com'' then
        (case drop 10 s of
           [] \<Rightarrow> None
         | sep # r \<Rightarrow>
             if sep = CHR ''/'' \<or> sep = CHR '':'' then
               (let owner = takeWhile repo_char r in
                if owner = [] then None
                else (case dropWhile repo_char r of
                        [] \<Rightarrow> None
                      | slash # r' \<Rightarrow>
                          if slash = CHR ''/'' then
                            (let name = takeWhile repo_char r' in
                             if name = [] then None else Some (owner, name))
                          else None))
             else None)
      else None)"

fun regex_match :: "string \<Rightarrow> (string \<times> string) option" where
  "regex_match [] = match_here []"
| "regex_match (c # cs) =
     (case match_here (c # cs) of
        Some m \<Rightarrow> Some m
      | None \<Rightarrow> regex_match cs)"

text \<open>\<^verbatim>\<open>name.replace(/\.git$/, '')\<close>.\<close>

definition strip_git_suffix :: "string \<Rightarrow> string" where
  "strip_git_suffix name =
     (if 4 \<le> length name \<and> drop (length name - 4) name = ''.git''
      then take (length name - 4) name else name)"

definition getGitRepo :: "world \<Rightarrow> string option" where
  "getGitRepo w =
     (case git_remote w of
        None \<Rightarrow> None
      | Some out \<Rightarrow>
          (case regex_match (trim out) of
             Some (owner, name) \<Rightarrow> Some (owner @ ''/'' @ strip_git_suffix name)
           | None \<Rightarrow> None))"

definition getTrackedFiles :: "world \<Rightarrow> string list" where
  "getTrackedFiles w =
     (case git_ls_files w of
        None \<Rightarrow> []
      | Some out \<Rightarrow>
          filter (\<lambda>f. trim f \<noteq> [] \<and> \<not> startsWith f ''.git'') (split CHR 0x0A out))"

subsection \<open>main: resolving and validating the configuration\<close>

text \<open>
  The values that \<^verbatim>\<open>main\<close> has once its checks have passed: the constants
  \<^verbatim>\<open>branch\<close>, \<^verbatim>\<open>repo\<close>, \<^verbatim>\<open>token\<close>, \<^verbatim>\<open>files\<close>, and \<^verbatim>\<open>options.message\<close> and
  \<^verbatim>\<open>options.create\<close>.
\<close>

record config =
  c_branch :: string
  c_repo :: string
  c_token :: string
  c_files :: "string list"
  c_message :: "string option"
  c_create :: bool

definition resolved_branch :: "world \<Rightarrow> string" where
  "resolved_branch w =
     (case branch (parseArgs w) of
        Some b \<Rightarrow> if b \<noteq> [] then b else getGitBranch w
      | None \<Rightarrow> getGitBranch w)"

definition resolved_repo :: "world \<Rightarrow> string option" where
  "resolved_repo w = or_else (repo (parseArgs w)) (getGitRepo w)"

definition resolved_token :: "world \<Rightarrow> string option" where
  "resolved_token w = token (parseArgs w)"

text \<open>\<^verbatim>\<open>options.files || getTrackedFiles()\<close>: an array is truthy, also an empty one.\<close>

definition resolved_files :: "world \<Rightarrow> string list" where
  "resolved_files w =
     (case files (parseArgs w) of
        Some given \<Rightarrow> given
      | None \<Rightarrow> getTrackedFiles w)"

text \<open>
  The first part of \<^verbatim>\<open>main\<close>, up to and including \<^verbatim>\<open>createFetcher\<close>: \<open>Inl code\<close>
  when the run ends there with that exit code (\<^verbatim>\<open>process.exit\<close>, or the rejection of
  \<^verbatim>\<open>import('node-fetch')\<close>, which the handler at the end of the script turns into exit
  code 1), \<open>Inr c\<close> when the run goes on to the remote API with the configuration \<open>c\<close>.
\<close>

definition resolve :: "world \<Rightarrow> nat + config" where
  "resolve w =
     (if help_opt (parseArgs w) then Inl 0
      else if \<not> truthy_str (resolved_token w) then Inl 1
      else if \<not> truthy_str (resolved_repo w) then Inl 1
      else if resolved_files w = [] then Inl 1
      else if dryRun (parseArgs w) then Inl 0
      else if \<not> node_fetch w then Inl 1
      else Inr \<lparr>c_branch = resolved_branch w,
                c_repo = (case resolved_repo w of Some r \<Rightarrow> r | None \<Rightarrow> []),
                c_token = (case resolved_token w of Some t \<Rightarrow> t | None \<Rightarrow> []),
                c_files = resolved_files w,
                c_message = message (parseArgs w),
                c_create = create (parseArgs w)\<rparr>)"

subsection \<open>The requests\<close>

text \<open>
  \<^verbatim>\<open>api(endpoint, fetchOptions)\<close> and the function \<^verbatim>\<open>createFetcher\<close> returns build the
  request: the URL, and the headers by two object spreads. \<open>extra\<close> is
  \<^verbatim>\<open>fetchOptions.headers\<close>. The proxy agent is left out.
\<close>

definition api_request ::
  "config \<Rightarrow> http_method \<Rightarrow> string \<Rightarrow> (string \<times> string) list \<Rightarrow> json option \<Rightarrow> request" where
  "api_request c m endpoint extra b =
     \<lparr>meth = m,
      url = (if startsWith endpoint ''http'' then endpoint
             else ''https://api.github.com'' @ endpoint),
      headers = spread [(''User-Agent'', ''github-push-script'')]
                  (spread [(''Authorization'', ''token '' @ c_token c),
                           (''Accept'', ''application/vnd.github.v3+json'')] extra),
      body = b\<rparr>"

definition ref_request :: "config \<Rightarrow> string \<Rightarrow> request" where
  "ref_request c b =
     api_request c GET (''/repos/'' @ c_repo c @ ''/git/refs/heads/'' @ b) [] None"

definition create_ref_request :: "config \<Rightarrow> json \<Rightarrow> request" where
  "create_ref_request c sha =
     api_request c POST (''/repos/'' @ c_repo c @ ''/git/refs'')
       [(''Content-Type'', ''application/json'')]
       (Some (JObj [(''ref'', JStr (''refs/heads/'' @ c_branch c)), (''sha'', sha)]))"

definition contents_request :: "config \<Rightarrow> string \<Rightarrow> request" where
  "contents_request c file =
     api_request c GET
       (''/repos/'' @ c_repo c @ ''/contents/'' @ file @ ''?ref='' @ c_branch c) [] None"

text \<open>A template literal prints \<^verbatim>\<open>undefined\<close> as the word.\<close>

definition template :: "string option \<Rightarrow> string" where
  "template v = (case v of Some s \<Rightarrow> s | None \<Rightarrow> ''undefined'')"

text \<open>
  The body of the upload: message, branch and content, and \<^verbatim>\<open>sha\<close> only when
  \<^verbatim>\<open>existing.sha\<close> is truthy.
\<close>

definition put_body :: "world \<Rightarrow> config \<Rightarrow> string \<Rightarrow> string \<Rightarrow> json option \<Rightarrow> (string \<times> json) list" where
  "put_body w c file content sha =
     [(''message'', JStr (template (c_message c) @ '' '' @ file)),
      (''branch'', JStr (c_branch c)),
      (''content'', JStr (base64 w content))]
     @ (case sha of
          Some v \<Rightarrow> if truthy sha then [(''sha'', v)] else []
        | None \<Rightarrow> [])"

definition put_request :: "world \<Rightarrow> config \<Rightarrow> string \<Rightarrow> string \<Rightarrow> json option \<Rightarrow> request" where
  "put_request w c file content sha =
     api_request c PUT (''/repos/'' @ c_repo c @ ''/contents/'' @ file)
       [(''Content-Type'', ''application/json'')]
       (Some (JObj (put_body w c file content sha)))"

subsection \<open>main: making sure the branch exists\<close>

text \<open>
  The part of \<^verbatim>\<open>main\<close> under \<^verbatim>\<open>// Ensure branch exists\<close>. The result is the list of
  requests sent, and whether the run goes on to the uploads; when it does not, it ends with
  exit code 1, by \<^verbatim>\<open>process.exit(1)\<close> or by an exception that reaches the handler at the
  end of the script.
\<close>

definition ensure_branch :: "world \<Rightarrow> config \<Rightarrow> request list \<times> bool" where
  "ensure_branch w c =
     (let q1 = ref_request c (c_branch c) in
      case net w [] q1 of
        Inl e \<Rightarrow> ([q1], False)
      | Inr refResult \<Rightarrow>
          (case get_prop refResult ''message'' of
             Inl e \<Rightarrow> ([q1], False)
           | Inr m \<Rightarrow>
               if m = Some (JStr ''Not Found'') then
                 if \<not> c_create c then ([q1], False)
                 else
                   (let q2 = ref_request c ''main'' in
                    case net w [q1] q2 of
                      Inl e \<Rightarrow> ([q1, q2], False)
                    | Inr mainRef \<Rightarrow>
                        (case object_sha mainRef of
                           Inl e \<Rightarrow> ([q1, q2], False)
                         | Inr None \<Rightarrow> ([q1, q2], False)
                         | Inr (Some sha) \<Rightarrow>
                             if \<not> truthy (Some sha) then ([q1, q2], False)
                             else
                               (let q3 = create_ref_request c sha in
                                case net w [q1, q2] q3 of
                                  Inl e \<Rightarrow> ([q1, q2, q3], False)
                                | Inr createResult \<Rightarrow>
                                    (case get_prop createResult ''ref'' of
                                       Inl e \<Rightarrow> ([q1, q2, q3], False)
                                     | Inr r \<Rightarrow> ([q1, q2, q3], truthy r)))))
               else ([q1], True)))"

subsection \<open>main: uploading the files\<close>

record state =
  success :: nat
  failed :: nat
  skipped :: nat
  calls :: "request list"

text \<open>
  The \<^verbatim>\<open>try\<close> block of the loop body, for a path that is there and is no directory;
  \<open>rd\<close> is what \<^verbatim>\<open>fs.readFileSync\<close> does. The result is the list of requests sent so
  far, and either the exception that the \<^verbatim>\<open>catch\<close> receives or the truthiness of
  \<^verbatim>\<open>result.content\<close>.
\<close>

definition try_upload ::
  "world \<Rightarrow> config \<Rightarrow> string \<Rightarrow> js_exn + string \<Rightarrow> request list
     \<Rightarrow> request list \<times> (js_exn + bool)" where
  "try_upload w c file rd sent =
     (case rd of
        Inl e \<Rightarrow> (sent, Inl e)
      | Inr content \<Rightarrow>
          (let q = contents_request c file in
           case net w sent q of
             Inl e \<Rightarrow> (sent @ [q], Inl e)
           | Inr existing \<Rightarrow>
               (case get_prop existing ''sha'' of
                  Inl e \<Rightarrow> (sent @ [q], Inl e)
                | Inr sha \<Rightarrow>
                    (let p = put_request w c file content sha in
                     case net w (sent @ [q]) p of
                       Inl e \<Rightarrow> (sent @ [q, p], Inl e)
                     | Inr result \<Rightarrow>
                         (case get_prop result ''content'' of
                            Inl e \<Rightarrow> (sent @ [q, p], Inl e)
                          | Inr v \<Rightarrow> (sent @ [q, p], Inr (truthy v)))))))"

text \<open>The loop body, for one file.\<close>

definition upload_file :: "world \<Rightarrow> config \<Rightarrow> string \<Rightarrow> state \<Rightarrow> state" where
  "upload_file w c file st =
     (case fs w file of
        None \<Rightarrow> st\<lparr>skipped := skipped st + 1\<rparr>
      | Some Directory \<Rightarrow> st\<lparr>skipped := skipped st + 1\<rparr>
      | Some (File rd) \<Rightarrow>
          (case try_upload w c file rd (calls st) of
             (sent, Inr True) \<Rightarrow> st\<lparr>success := success st + 1, calls := sent\<rparr>
           | (sent, Inr False) \<Rightarrow> st\<lparr>failed := failed st + 1, calls := sent\<rparr>
           | (sent, Inl e) \<Rightarrow> st\<lparr>failed := failed st + 1, calls := sent\<rparr>))"

text \<open>The counters before the loop, and the requests sent before it.\<close>

definition start :: "request list \<Rightarrow> state" where
  "start sent = \<lparr>success = 0, failed = 0, skipped = 0, calls = sent\<rparr>"

text \<open>The loop \<^verbatim>\<open>for (const file of files)\<close>.\<close>

fun upload_files :: "world \<Rightarrow> config \<Rightarrow> string list \<Rightarrow> state \<Rightarrow> state" where
  "upload_files w c [] st = st"
| "upload_files w c (file # rest) st = upload_files w c rest (upload_file w c file st)"

subsection \<open>main\<close>

text \<open>
  What a run does: the exit code of the process, the requests it sent, in order, and the
  three numbers of the last line it prints (uploaded, failed, skipped) when it gets there.
  A run that reaches the end of \<^verbatim>\<open>main\<close> exits with code 0.
\<close>

record run =
  exit_code :: nat
  network :: "request list"
  summary :: "(nat \<times> nat \<times> nat) option"

definition main :: "world \<Rightarrow> run" where
  "main w =
     (case resolve w of
        Inl code \<Rightarrow> \<lparr>exit_code = code, network = [], summary = None\<rparr>
      | Inr c \<Rightarrow>
          (case ensure_branch w c of
             (sent, False) \<Rightarrow> \<lparr>exit_code = 1, network = sent, summary = None\<rparr>
           | (sent, True) \<Rightarrow>
               (let st = upload_files w c (c_files c) (start sent)
                in \<lparr>exit_code = 0, network = calls st,
                    summary = Some (success st, failed st, skipped st)\<rparr>)))"

subsection \<open>Notions the properties use\<close>

text \<open>
  The options of \<^verbatim>\<open>parseArgs\<close> that take the next argument as their value.
\<close>

definition value_options :: "string list" where
  "value_options =
     [''--branch'', ''-b'', ''--repo'', ''-r'', ''--token'', ''-t'', ''--files'', ''-f'',
      ''--message'', ''-m'', ''--proxy'', ''-p'']"

text \<open>
  A list of arguments in which every option with a value has its value: \<^verbatim>\<open>parseArgs\<close>
  reads such a list to its end without taking anything from what follows it.
\<close>

fun whole_options :: "string list \<Rightarrow> bool" where
  "whole_options [] = True"
| "whole_options (arg # rest) =
     (if arg \<in> set value_options
      then (case rest of [] \<Rightarrow> False | v # rest' \<Rightarrow> whole_options rest')
      else whole_options rest)"

text \<open>
  The file list of an explicit override as the specification words it: the entries between
  the commas, trimmed, the empty ones removed.
\<close>

definition files_override_spec :: "string \<Rightarrow> string list" where
  "files_override_spec entries = filter (\<lambda>f. f \<noteq> []) (map trim (split CHR '','' entries))"

text \<open>
  The content hash that the answer to the contents query carries: the truthy
  \<^verbatim>\<open>existing.sha\<close>, if the query gave a value that has one.
\<close>

definition content_hash :: "js_exn + json \<Rightarrow> json option" where
  "content_hash answer =
     (case answer of
        Inl e \<Rightarrow> None
      | Inr existing \<Rightarrow>
          (case get_prop existing ''sha'' of
             Inl e \<Rightarrow> None
           | Inr None \<Rightarrow> None
           | Inr (Some h) \<Rightarrow> if truthy (Some h) then Some h else None))"

text \<open>
  The answer to the upload carries the confirmation: \<^verbatim>\<open>result.content\<close> is there and
  truthy.
\<close>

definition confirmation :: "js_exn + json \<Rightarrow> bool" where
  "confirmation answer =
     (case answer of
        Inl e \<Rightarrow> False
      | Inr result \<Rightarrow>
          (case get_prop result ''content'' of
             Inl e \<Rightarrow> False
           | Inr v \<Rightarrow> truthy v))"

text \<open>The \<^verbatim>\<open>sha\<close> field of the body of a request, if the body has one.\<close>

definition sha_field :: "request \<Rightarrow> json option" where
  "sha_field r =
     (case body r of
        Some (JObj kvs) \<Rightarrow> map_of kvs ''sha''
      | _ \<Rightarrow> None)"

text \<open>
  The commit of the base branch: the truthy \<^verbatim>\<open>mainRef.object?.sha\<close> of the answer to
  the query for \<^verbatim>\<open>main\<close>, sent after the query for the target branch.
\<close>

definition base_commit :: "world \<Rightarrow> config \<Rightarrow> json option" where
  "base_commit w c =
     (case net w [ref_request c (c_branch c)] (ref_request c ''main'') of
        Inl e \<Rightarrow> None
      | Inr mainRef \<Rightarrow>
          (case object_sha mainRef of
             Inl e \<Rightarrow> None
           | Inr None \<Rightarrow> None
           | Inr (Some sha) \<Rightarrow> if truthy (Some sha) then Some sha else None))"

text \<open>The three outcomes of a file, as changes of the counters.\<close>

definition uploaded :: "state \<Rightarrow> state \<Rightarrow> bool" where
  "uploaded st st' =
     (success st' = success st + 1 \<and> failed st' = failed st \<and> skipped st' = skipped st)"

definition has_failed :: "state \<Rightarrow> state \<Rightarrow> bool" where
  "has_failed st st' =
     (success st' = success st \<and> failed st' = failed st + 1 \<and> skipped st' = skipped st)"

definition was_skipped :: "state \<Rightarrow> state \<Rightarrow> bool" where
  "was_skipped st st' =
     (success st' = success st \<and> failed st' = failed st \<and> skipped st' = skipped st + 1)"

subsection \<open>An example world\<close>

text \<open>
  A repository \<^verbatim>\<open>acme/site\<close> whose remote has the branch \<^verbatim>\<open>main\<close> only, with one
  file \<^verbatim>\<open>old.txt\<close> on it; the upload of \<^verbatim>\<open>bad.txt\<close> is rejected and the query for
  \<^verbatim>\<open>down.txt\<close> fails in the transport.
\<close>

definition remote :: "request list \<Rightarrow> request \<Rightarrow> js_exn + json" where
  "remote sent r =
     (if meth r = POST then Inr (JObj [(''ref'', JStr ''refs/heads/feature'')])
      else if meth r = PUT then
        (if url r = ''https://api.github.com/repos/acme/site/contents/bad.txt''
         then Inr (JObj [(''message'', JStr ''Invalid request'')])
         else Inr (JObj [(''content'', JObj [(''sha'', JStr ''n3w'')])]))
      else if url r = ''https://api.github.com/repos/acme/site/git/refs/heads/main''
        then Inr (JObj [(''ref'', JStr ''refs/heads/main''),
                        (''object'', JObj [(''sha'', JStr ''c0ffee'')])])
      else if url r = ''https://api.github.com/repos/acme/site/contents/old.txt?ref=main''
        then Inr (JObj [(''sha'', JStr ''01d'')])
      else if url r = ''https://api.github.com/repos/acme/site/contents/down.txt?ref=main''
        then Inl (FetchError ''socket hang up'')
      else Inr (JObj [(''message'', JStr ''Not Found'')]))"

definition disk :: "string \<Rightarrow> fs_entry option" where
  "disk file =
     (if file = ''a.txt'' then Some (File (Inr ''alpha''))
      else if file = ''old.txt'' then Some (File (Inr ''omega''))
      else if file = ''bad.txt'' then Some (File (Inr ''beta''))
      else if file = ''down.txt'' then Some (File (Inr ''delta''))
      else if file = ''locked.txt'' then Some (File (Inl (ReadError ''EACCES'')))
      else if file = ''src'' \<or> file = [] then Some Directory
      else None)"

definition example :: "string list \<Rightarrow> string option \<Rightarrow> world" where
  "example args tok =
     \<lparr>argv = args,
      env_GITHUB_TOKEN = tok,
      env_HTTPS_PROXY = None,
      env_HTTP_PROXY = None,
      git_branch = Some (''main'' @ [CHR 0x0A]),
      git_remote = Some (''https://github.com/acme/site.git'' @ [CHR 0x0A]),
      git_ls_files = Some (''.gitignore'' @ [CHR 0x0A] @ ''a.txt'' @ [CHR 0x0A]
                            @ ''old.txt'' @ [CHR 0x0A]),
      node_fetch = True,
      fs = disk,
      base64 = id,
      net = remote\<rparr>"

definition example_config :: config where
  "example_config =
     \<lparr>c_branch = ''main'',
      c_repo = ''acme/site'',
      c_token = ''ghp_token'',
      c_files = [''a.txt'', ''old.txt''],
      c_message = Some ''Update'',
      c_create = True\<rparr>"

text \<open>A remote that answers \<^verbatim>\<open>Not Found\<close> to every request.\<close>

definition nothing_there :: "request list \<Rightarrow> request \<Rightarrow> js_exn + json" where
  "nothing_there sent r = Inr (JObj [(''message'', JStr ''Not Found'')])"

section \<open>Properties\<close>

text \<open>The definitions that evaluate the requests, the example and the configuration.\<close>

lemmas request_defs =
  ref_request_def create_ref_request_def contents_request_def put_request_def put_body_def
  api_request_def spread_def startsWith_def template_def

lemmas example_defs = example_def example_config_def disk_def remote_def nothing_there_def

lemmas resolve_defs =
  resolve_def resolved_branch_def resolved_repo_def resolved_token_def resolved_files_def
  parseArgs_def getGitBranch_def getGitRepo_def getTrackedFiles_def or_else_def match_here_def
  repo_char_def strip_git_suffix_def trim_def is_space_def startsWith_def

subsection \<open>The file list\<close>

text \<open>
  An argument list without \<^verbatim>\<open>--files\<close> and \<^verbatim>\<open>-f\<close> leaves \<^verbatim>\<open>options.files\<close> as
  it is.
\<close>

lemma files_unchanged:
  "''--files'' \<notin> set args \<Longrightarrow> ''-f'' \<notin> set args \<Longrightarrow> files (parseArgs_loop args opts) = files opts"
proof (induction args opts rule: parseArgs_loop.induct)
  case (1 opts)
  then show ?case by simp
next
  case (2 arg rest opts)
  have rest_free: "''--files'' \<notin> set rest" "''-f'' \<notin> set rest"
    using "2.prems" by auto
  then have tl_free: "''--files'' \<notin> set (tl rest)" "''-f'' \<notin> set (tl rest)"
    by (cases rest; simp)+
  have arg_ne: "arg \<noteq> ''--files''" "arg \<noteq> ''-f''"
    using "2.prems" by auto
  show ?case
    using "2.IH" tl_free rest_free arg_ne
    by (simp add: Let_def)
qed

text \<open>
  An argument that is not an option with a value is consumed alone, whatever it is.
\<close>

lemma plain_arg_step:
  assumes "arg \<notin> set value_options"
  shows "\<exists>opts1. parseArgs_loop (arg # args) opts = parseArgs_loop args opts1"
proof -
  from assms have ne:
    "arg \<noteq> ''--branch''" "arg \<noteq> ''-b''" "arg \<noteq> ''--repo''" "arg \<noteq> ''-r''"
    "arg \<noteq> ''--token''" "arg \<noteq> ''-t''" "arg \<noteq> ''--files''" "arg \<noteq> ''-f''"
    "arg \<noteq> ''--message''" "arg \<noteq> ''-m''" "arg \<noteq> ''--proxy''" "arg \<noteq> ''-p''"
    unfolding value_options_def by simp_all
  consider (create) "arg = ''--create''" | (no_create) "arg = ''--no-create''"
    | (dry) "arg = ''--dry-run''" | (help1) "arg = ''--help''" | (help2) "arg = ''-h''"
    | (other) "arg \<noteq> ''--create''" "arg \<noteq> ''--no-create''" "arg \<noteq> ''--dry-run''"
        "arg \<noteq> ''--help''" "arg \<noteq> ''-h''"
    by blast
  then show ?thesis
  proof cases
    case create
    have "parseArgs_loop (''--create'' # args) opts = parseArgs_loop args (opts\<lparr>create := True\<rparr>)"
      by (simp add: Let_def)
    with create show ?thesis by blast
  next
    case no_create
    have "parseArgs_loop (''--no-create'' # args) opts = parseArgs_loop args (opts\<lparr>create := False\<rparr>)"
      by (simp add: Let_def)
    with no_create show ?thesis by blast
  next
    case dry
    have "parseArgs_loop (''--dry-run'' # args) opts = parseArgs_loop args (opts\<lparr>dryRun := True\<rparr>)"
      by (simp add: Let_def)
    with dry show ?thesis by blast
  next
    case help1
    have "parseArgs_loop (''--help'' # args) opts = parseArgs_loop args (opts\<lparr>help_opt := True\<rparr>)"
      by (simp add: Let_def)
    with help1 show ?thesis by blast
  next
    case help2
    have "parseArgs_loop (''-h'' # args) opts = parseArgs_loop args (opts\<lparr>help_opt := True\<rparr>)"
      by (simp add: Let_def)
    with help2 show ?thesis by blast
  next
    case other
    have "parseArgs_loop (arg # args) opts =
            parseArgs_loop args
              (if \<not> startsWith arg ''-'' \<and> \<not> truthy_str (branch opts)
               then opts\<lparr>branch := Some arg\<rparr> else opts)"
      using ne other by (simp add: Let_def)
    then show ?thesis by blast
  qed
qed

text \<open>What \<^verbatim>\<open>--files\<close> or \<^verbatim>\<open>-f\<close> with a non-empty value does.\<close>

lemma files_option_step:
  assumes "flag = ''--files'' \<or> flag = ''-f''" and "entries \<noteq> []"
  shows "parseArgs_loop (flag # entries # after) opts
          = parseArgs_loop after (opts\<lparr>files := Some (map trim (split CHR '','' entries))\<rparr>)"
proof -
  have long: "parseArgs_loop (''--files'' # entries # after) opts
          = parseArgs_loop after (opts\<lparr>files := Some (map trim (split CHR '','' entries))\<rparr>)"
    using assms(2) by (simp add: Let_def)
  have short: "parseArgs_loop (''-f'' # entries # after) opts
          = parseArgs_loop after (opts\<lparr>files := Some (map trim (split CHR '','' entries))\<rparr>)"
    using assms(2) by (simp add: Let_def)
  from assms(1) long short show ?thesis by blast
qed

lemma value_arg_step:
  assumes "arg \<in> set value_options"
  shows "\<exists>opts1. parseArgs_loop (arg # v # args) opts = parseArgs_loop args opts1"
proof -
  have b: "\<exists>opts1. parseArgs_loop (''--branch'' # v # args) opts = parseArgs_loop args opts1"
    "\<exists>opts1. parseArgs_loop (''-b'' # v # args) opts = parseArgs_loop args opts1"
    by (simp add: Let_def; (intro conjI impI)?; rule exI; rule refl)+
  have r: "\<exists>opts1. parseArgs_loop (''--repo'' # v # args) opts = parseArgs_loop args opts1"
    "\<exists>opts1. parseArgs_loop (''-r'' # v # args) opts = parseArgs_loop args opts1"
    by (simp add: Let_def; (intro conjI impI)?; rule exI; rule refl)+
  have t: "\<exists>opts1. parseArgs_loop (''--token'' # v # args) opts = parseArgs_loop args opts1"
    "\<exists>opts1. parseArgs_loop (''-t'' # v # args) opts = parseArgs_loop args opts1"
    by (simp add: Let_def; (intro conjI impI)?; rule exI; rule refl)+
  have f: "\<exists>opts1. parseArgs_loop (''--files'' # v # args) opts = parseArgs_loop args opts1"
    "\<exists>opts1. parseArgs_loop (''-f'' # v # args) opts = parseArgs_loop args opts1"
    by (simp add: Let_def; (intro conjI impI)?; rule exI; rule refl)+
  have m: "\<exists>opts1. parseArgs_loop (''--message'' # v # args) opts = parseArgs_loop args opts1"
    "\<exists>opts1. parseArgs_loop (''-m'' # v # args) opts = parseArgs_loop args opts1"
    by (simp add: Let_def; (intro conjI impI)?; rule exI; rule refl)+
  have p: "\<exists>opts1. parseArgs_loop (''--proxy'' # v # args) opts = parseArgs_loop args opts1"
    "\<exists>opts1. parseArgs_loop (''-p'' # v # args) opts = parseArgs_loop args opts1"
    by (simp add: Let_def; (intro conjI impI)?; rule exI; rule refl)+
  from assms b r t f m p show ?thesis
    unfolding value_options_def by (elim disjE | simp only: set_simps insert_iff empty_iff)+
qed

lemma files_after_whole_options:
  assumes "whole_options before"
    and "\<And>opts. files (parseArgs_loop args opts) = r"
  shows "files (parseArgs_loop (before @ args) opts) = r"
  using assms(1)
proof (induction before arbitrary: opts rule: whole_options.induct)
  case 1
  show ?case by (simp add: assms(2))
next
  case (2 arg rest)
  show ?case
  proof (cases "arg \<in> set value_options")
    case True
    with "2.prems" obtain v rest' where rest: "rest = v # rest'" and whole: "whole_options rest'"
      by (cases rest) auto
    obtain opts1 where "parseArgs_loop (arg # v # rest' @ args) opts
                          = parseArgs_loop (rest' @ args) opts1"
      using value_arg_step [OF True] by blast
    then have "files (parseArgs_loop ((arg # rest) @ args) opts)
                 = files (parseArgs_loop (rest' @ args) opts1)"
      by (simp only: rest append_Cons)
    also have "\<dots> = r"
      by (rule "2.IH"(1) [OF True rest whole])
    finally show ?thesis .
  next
    case False
    with "2.prems" have whole: "whole_options rest"
      by simp
    obtain opts1 where "parseArgs_loop (arg # rest @ args) opts = parseArgs_loop (rest @ args) opts1"
      using plain_arg_step [OF False] by blast
    then have "files (parseArgs_loop ((arg # rest) @ args) opts)
                 = files (parseArgs_loop (rest @ args) opts1)"
      by (simp only: append_Cons)
    also have "\<dots> = r"
      by (rule "2.IH"(2) [OF False whole])
    finally show ?thesis .
  qed
qed

text \<open>
  What \<^verbatim>\<open>parseArgs\<close> makes of a non-empty value of \<^verbatim>\<open>--files\<close> or \<^verbatim>\<open>-f\<close> that
  stands after whole options and before arguments that are not \<^verbatim>\<open>--files\<close> or
  \<^verbatim>\<open>-f\<close>: the pieces between the commas, each trimmed.
\<close>

lemma files_override_parsed:
  assumes "argv w = before @ flag # entries # after"
    and "flag = ''--files'' \<or> flag = ''-f''"
    and "entries \<noteq> []"
    and "whole_options before"
    and "''--files'' \<notin> set after" and "''-f'' \<notin> set after"
  shows "resolved_files w = map trim (split CHR '','' entries)"
proof -
  have "files (parseArgs_loop (flag # entries # after) opts) = Some (map trim (split CHR '','' entries))"
    for opts
  proof -
    have "files (parseArgs_loop (flag # entries # after) opts)
            = files (parseArgs_loop after (opts\<lparr>files := Some (map trim (split CHR '','' entries))\<rparr>))"
      by (simp only: files_option_step [OF assms(2,3)])
    also have "\<dots> = files (opts\<lparr>files := Some (map trim (split CHR '','' entries))\<rparr>)"
      by (rule files_unchanged [OF assms(5,6)])
    finally show ?thesis by simp
  qed
  then have "files (parseArgs w) = Some (map trim (split CHR '','' entries))"
    unfolding parseArgs_def assms(1)
    by (rule files_after_whole_options [OF assms(4)])
  then show ?thesis by (simp add: resolved_files_def)
qed

text \<open>
  Claim C8, as amended. The claim says that the file list of every explicit override is the
  override's entries in order, trimmed, with the empty entries removed. An empty value is
  taken as no override at all, so the amended claim is about a non-empty value of
  \<^verbatim>\<open>--files\<close> or \<^verbatim>\<open>-f\<close>, standing after whole options and before arguments that
  are not \<^verbatim>\<open>--files\<close> or \<^verbatim>\<open>-f\<close>: the non-empty entries of the resolved file list
  are exactly the override's entries in order, each trimmed, the empty ones left out.
\<close>

theorem files_override_entries:
  assumes "argv w = before @ flag # entries # after"
    and "flag = ''--files'' \<or> flag = ''-f''"
    and "entries \<noteq> []"
    and "whole_options before"
    and "''--files'' \<notin> set after" and "''-f'' \<notin> set after"
  shows "filter (\<lambda>f. f \<noteq> []) (resolved_files w) = files_override_spec entries"
  by (simp only: files_override_parsed [OF assms] files_override_spec_def)

text \<open>
  The amended claim C8 at \<^verbatim>\<open>-b main --dry-run -f " a.txt ,,src/b.txt" feature\<close>.
\<close>

theorem files_override_entries_witness:
  "filter (\<lambda>f. f \<noteq> [])
     (resolved_files
        (example [''-b'', ''main'', ''--dry-run'', ''-f'', '' a.txt ,,src/b.txt'', ''feature''] None))
     = [''a.txt'', ''src/b.txt'']"
  using files_override_entries
    [of "example [''-b'', ''main'', ''--dry-run'', ''-f'', '' a.txt ,,src/b.txt'', ''feature''] None"
        "[''-b'', ''main'', ''--dry-run'']" "''-f''" "'' a.txt ,,src/b.txt''" "[''feature'']"]
  by (simp add: example_def value_options_def files_override_spec_def trim_def is_space_def)

text \<open>
  Claim C8 as stated fails at \<^verbatim>\<open>--files ""\<close>: the override has no entry that is not
  empty, so the list the claim describes is empty, and the resolved list is the list of the
  tracked files.
\<close>

theorem files_override_empty_falls_back:
  "files (parseArgs (example [''--files'', []] None)) = None
   \<and> files_override_spec [] = []
   \<and> resolved_files (example [''--files'', []] None) = [''a.txt'', ''old.txt'']"
  by (simp add: resolved_files_def parseArgs_def getTrackedFiles_def example_def
        files_override_spec_def startsWith_def trim_def is_space_def)

text \<open>
  The empty entries of a non-empty override stay in the resolved list: at
  \<^verbatim>\<open>--files "a.txt,,b.txt"\<close> it has the empty entry between the two names.
\<close>

lemma files_override_keeps_empty_entries:
  "resolved_files (example [''--files'', ''a.txt,,b.txt''] None) = [''a.txt'', [], ''b.txt'']
   \<and> files_override_spec ''a.txt,,b.txt'' = [''a.txt'', ''b.txt'']"
  by (simp add: resolved_files_def parseArgs_def example_def files_override_spec_def trim_def
        is_space_def)

text \<open>
  Claim C9. The claim says that without an explicit list every tracked file is in the
  resolved set, the ones inside \<^verbatim>\<open>.git/\<close> apart, and that a file such as
  \<^verbatim>\<open>.gitignore\<close> is not excluded. The filter of \<^verbatim>\<open>getTrackedFiles\<close> drops every
  line that starts with \<^verbatim>\<open>.git\<close>: when \<^verbatim>\<open>git ls-files\<close> prints \<^verbatim>\<open>.gitignore\<close>,
  \<^verbatim>\<open>a.txt\<close> and \<^verbatim>\<open>old.txt\<close>, the resolved set is \<^verbatim>\<open>a.txt\<close> and \<^verbatim>\<open>old.txt\<close>.
\<close>

theorem tracked_files_drop_gitignore:
  "git_ls_files (example [] None)
     = Some (''.gitignore'' @ [CHR 0x0A] @ ''a.txt'' @ [CHR 0x0A] @ ''old.txt'' @ [CHR 0x0A])
   \<and> files (parseArgs (example [] None)) = None
   \<and> resolved_files (example [] None) = [''a.txt'', ''old.txt'']"
  by (simp add: resolved_files_def parseArgs_def getTrackedFiles_def example_def
        startsWith_def trim_def is_space_def)

subsection \<open>The upload loop\<close>

text \<open>
  The loop over a list in two parts is the loop over the second part, started where the
  loop over the first part ends; then the loop body in each of its cases, and what the
  body does to the counters and to the list of requests.
\<close>

lemma upload_files_append:
  "upload_files w c (xs @ ys) st = upload_files w c ys (upload_files w c xs st)"
  by (induction xs arbitrary: st) simp_all

lemma upload_file_absent:
  "fs w file = None \<Longrightarrow> upload_file w c file st = st\<lparr>skipped := skipped st + 1\<rparr>"
  by (simp add: upload_file_def)

lemma upload_file_directory:
  "fs w file = Some Directory \<Longrightarrow> upload_file w c file st = st\<lparr>skipped := skipped st + 1\<rparr>"
  by (simp add: upload_file_def)

lemma upload_file_unreadable:
  "fs w file = Some (File (Inl e)) \<Longrightarrow> upload_file w c file st = st\<lparr>failed := failed st + 1\<rparr>"
  by (simp add: upload_file_def try_upload_def)

lemma upload_file_query_throws:
  assumes "fs w file = Some (File (Inr content))"
    and "net w (calls st) (contents_request c file) = Inl e"
  shows "upload_file w c file st
           = st\<lparr>failed := failed st + 1, calls := calls st @ [contents_request c file]\<rparr>"
  using assms by (simp add: upload_file_def try_upload_def)

lemma upload_file_query_null:
  assumes "fs w file = Some (File (Inr content))"
    and "net w (calls st) (contents_request c file) = Inr JNull"
  shows "upload_file w c file st
           = st\<lparr>failed := failed st + 1, calls := calls st @ [contents_request c file]\<rparr>"
  using assms by (simp add: upload_file_def try_upload_def)

lemma upload_file_put:
  assumes "fs w file = Some (File (Inr content))"
    and "net w (calls st) (contents_request c file) = Inr existing"
    and "get_prop existing ''sha'' = Inr sha"
  shows "upload_file w c file st =
           (if confirmation (net w (calls st @ [contents_request c file])
                               (put_request w c file content sha))
            then st\<lparr>success := success st + 1,
                    calls := calls st @ [contents_request c file, put_request w c file content sha]\<rparr>
            else st\<lparr>failed := failed st + 1,
                    calls := calls st @ [contents_request c file, put_request w c file content sha]\<rparr>)"
  using assms
  by (simp add: upload_file_def try_upload_def confirmation_def Let_def split: sum.splits)



lemma sha_field_put_request:
  "sha_field (put_request w c file content sha) = (if truthy sha then sha else None)"
  by (cases sha) (simp_all add: sha_field_def put_request_def put_body_def api_request_def)

lemma meth_requests [simp]:
  "meth (contents_request c file) = GET"
  "meth (put_request w c file content sha) = PUT"
  "meth (ref_request c b) = GET"
  "meth (create_ref_request c h) = POST"
  by (simp_all add: contents_request_def put_request_def ref_request_def create_ref_request_def
        api_request_def)

lemma upload_file_counts:
  "uploaded st (upload_file w c file st) \<or> has_failed st (upload_file w c file st)
     \<or> was_skipped st (upload_file w c file st)"
  by (simp add: upload_file_def uploaded_def has_failed_def was_skipped_def
        split: option.splits fs_entry.splits prod.splits sum.splits bool.splits)

lemma upload_file_sum:
  "success (upload_file w c file st) + failed (upload_file w c file st)
     + skipped (upload_file w c file st) = success st + failed st + skipped st + 1"
  using upload_file_counts [of st w c "file"]
  by (auto simp: uploaded_def has_failed_def was_skipped_def)

lemma upload_files_sum:
  "success (upload_files w c fl st) + failed (upload_files w c fl st)
     + skipped (upload_files w c fl st) = success st + failed st + skipped st + length fl"
  by (induction fl arbitrary: st) (simp_all add: upload_file_sum)

lemma upload_file_calls:
  "\<exists>new. calls (upload_file w c file st) = calls st @ new \<and> (\<forall>r \<in> set new. meth r \<noteq> POST)"
  by (auto simp: upload_file_def try_upload_def Let_def
        split: option.splits fs_entry.splits prod.splits sum.splits bool.splits)

lemma upload_file_posts:
  "filter (\<lambda>r. meth r = POST) (calls (upload_file w c file st)) = filter (\<lambda>r. meth r = POST) (calls st)"
proof -
  obtain new where "calls (upload_file w c file st) = calls st @ new" "\<forall>r \<in> set new. meth r \<noteq> POST"
    using upload_file_calls by blast
  then show ?thesis by simp
qed

lemma upload_files_posts:
  "filter (\<lambda>r. meth r = POST) (calls (upload_files w c fl st)) = filter (\<lambda>r. meth r = POST) (calls st)"
  by (induction fl arbitrary: st) (simp_all add: upload_file_posts)

subsection \<open>The run as a whole\<close>

text \<open>
  What the configuration is when the checks pass, and the three ways a run ends: in the
  first part of \<^verbatim>\<open>main\<close>, at the branch, or after the loop.
\<close>

lemma resolve_config:
  assumes "resolve w = Inr c"
  shows "c_branch c = resolved_branch w" and "c_files c = resolved_files w"
    and "c_message c = message (parseArgs w)" and "c_create c = create (parseArgs w)"
    and "resolved_repo w = Some (c_repo c)" and "resolved_token w = Some (c_token c)"
    and "c_files c \<noteq> []" and "\<not> help_opt (parseArgs w)" and "\<not> dryRun (parseArgs w)"
  using assms by (auto simp: resolve_def split: if_splits option.splits)

lemma main_uploads:
  assumes "resolve w = Inr c" and "ensure_branch w c = (sent, True)"
  shows "main w =
           \<lparr>exit_code = 0,
            network = calls (upload_files w c (c_files c) (start sent)),
            summary = Some (success (upload_files w c (c_files c) (start sent)),
                            failed (upload_files w c (c_files c) (start sent)),
                            skipped (upload_files w c (c_files c) (start sent)))\<rparr>"
  using assms by (simp add: main_def Let_def)

lemma main_stops:
  assumes "resolve w = Inr c" and "ensure_branch w c = (sent, False)"
  shows "main w = \<lparr>exit_code = 1, network = sent, summary = None\<rparr>"
  using assms by (simp add: main_def)

lemma main_early:
  assumes "resolve w = Inl code"
  shows "main w = \<lparr>exit_code = code, network = [], summary = None\<rparr>"
  using assms by (simp add: main_def)

text \<open>
  A run that reaches the loop runs it over the resolved file list, from the counters at
  zero and the requests of the branch phase; its requests and its summary are those of the
  loop.
\<close>

lemma main_over_resolved:
  assumes "resolve w = Inr c" and "ensure_branch w c = (sent, True)"
  shows "exit_code (main w) = 0"
    and "network (main w) = calls (upload_files w c (resolved_files w) (start sent))"
    and "summary (main w) =
           Some (success (upload_files w c (resolved_files w) (start sent)),
                 failed (upload_files w c (resolved_files w) (start sent)),
                 skipped (upload_files w c (resolved_files w) (start sent)))"
  by (simp_all add: main_uploads [OF assms] resolve_config(2) [OF assms(1)])

subsection \<open>Files that are uploaded\<close>



text \<open>
  Claim C2. A file is there and is no directory. When the answer to the contents query
  carries a content hash, the requests sent for this file are the query and an upload whose
  \<^verbatim>\<open>sha\<close> field is that hash. When the answer to the upload lacks the confirmation
  (or the upload throws), when the query throws or gives \<^verbatim>\<open>null\<close>, or when reading the
  file throws, the file counts as failed. Whatever happens, the loop goes on with the files
  after this one, and a run that has reached the loop ends with exit code 0, its requests
  and its summary being those of the loop over the resolved file list.
\<close>

theorem update_upload_and_failures:
  assumes "fs w file = Some (File rd)"
  shows "(\<forall>content h.
            rd = Inr content \<and> content_hash (net w (calls st) (contents_request c file)) = Some h
            \<longrightarrow> calls (upload_file w c file st)
                  = calls st @ [contents_request c file, put_request w c file content (Some h)]
                \<and> sha_field (put_request w c file content (Some h)) = Some h)
       \<and> (\<forall>content existing sha.
            rd = Inr content \<and> net w (calls st) (contents_request c file) = Inr existing
            \<and> get_prop existing ''sha'' = Inr sha
            \<and> \<not> confirmation (net w (calls st @ [contents_request c file])
                                 (put_request w c file content sha))
            \<longrightarrow> has_failed st (upload_file w c file st))
       \<and> (\<forall>content e.
            rd = Inr content
            \<and> (net w (calls st) (contents_request c file) = Inl e
                 \<or> net w (calls st) (contents_request c file) = Inr JNull)
            \<longrightarrow> has_failed st (upload_file w c file st))
       \<and> (\<forall>e. rd = Inl e \<longrightarrow> has_failed st (upload_file w c file st))
       \<and> (\<forall>before after st0.
            upload_files w c (before @ file # after) st0
              = upload_files w c after (upload_file w c file (upload_files w c before st0)))
       \<and> (\<forall>sent. resolve w = Inr c \<and> ensure_branch w c = (sent, True)
            \<longrightarrow> exit_code (main w) = 0 \<and> summary (main w) \<noteq> None
                \<and> network (main w) = calls (upload_files w c (resolved_files w) (start sent))
                \<and> summary (main w) =
                     Some (success (upload_files w c (resolved_files w) (start sent)),
                           failed (upload_files w c (resolved_files w) (start sent)),
                           skipped (upload_files w c (resolved_files w) (start sent))))"
proof (intro conjI allI impI)
  fix content h
  assume a: "rd = Inr content \<and> content_hash (net w (calls st) (contents_request c file)) = Some h"
  then obtain existing where ex: "net w (calls st) (contents_request c file) = Inr existing"
    and sha: "get_prop existing ''sha'' = Inr (Some h)" and tr: "truthy (Some h)"
    by (auto simp: content_hash_def split: sum.splits option.splits if_splits)
  from a assms have f: "fs w file = Some (File (Inr content))" by simp
  show "calls (upload_file w c file st)
          = calls st @ [contents_request c file, put_request w c file content (Some h)]"
    by (simp add: upload_file_put [OF f ex sha])
  show "sha_field (put_request w c file content (Some h)) = Some h"
    using tr by (simp add: sha_field_put_request)
next
  fix content existing sha
  assume a: "rd = Inr content \<and> net w (calls st) (contents_request c file) = Inr existing
            \<and> get_prop existing ''sha'' = Inr sha
            \<and> \<not> confirmation (net w (calls st @ [contents_request c file])
                                 (put_request w c file content sha))"
  with assms have f: "fs w file = Some (File (Inr content))" by simp
  from a show "has_failed st (upload_file w c file st)"
    by (simp add: upload_file_put [OF f, of st c existing sha] has_failed_def)
next
  fix content e
  assume a: "rd = Inr content
            \<and> (net w (calls st) (contents_request c file) = Inl e
                 \<or> net w (calls st) (contents_request c file) = Inr JNull)"
  with assms have f: "fs w file = Some (File (Inr content))" by simp
  from a show "has_failed st (upload_file w c file st)"
    by (auto simp: upload_file_query_throws [OF f] upload_file_query_null [OF f] has_failed_def)
next
  fix e
  assume "rd = Inl e"
  with assms show "has_failed st (upload_file w c file st)"
    by (simp add: upload_file_unreadable has_failed_def)
next
  fix before after st0
  show "upload_files w c (before @ file # after) st0
          = upload_files w c after (upload_file w c file (upload_files w c before st0))"
    by (simp add: upload_files_append)
next
  fix sent
  assume a: "resolve w = Inr c \<and> ensure_branch w c = (sent, True)"
  then have r: "resolve w = Inr c" and e: "ensure_branch w c = (sent, True)"
    by simp_all
  show "exit_code (main w) = 0"
    by (rule main_over_resolved(1) [OF r e])
  show "summary (main w) \<noteq> None"
    by (simp add: main_over_resolved(3) [OF r e])
  show "network (main w) = calls (upload_files w c (resolved_files w) (start sent))"
    by (rule main_over_resolved(2) [OF r e])
  show "summary (main w) =
          Some (success (upload_files w c (resolved_files w) (start sent)),
                failed (upload_files w c (resolved_files w) (start sent)),
                skipped (upload_files w c (resolved_files w) (start sent)))"
    by (rule main_over_resolved(3) [OF r e])
qed

text \<open>
  Claim C3. A path that is not there, or that is a directory, counts as skipped: the counter
  \<^verbatim>\<open>skipped\<close> goes up by one, the other two stay, and no request is sent. The loop goes
  on with the files after it. A run that has reached the loop ends with exit code 0, and its
  requests and summary are those of the loop over the resolved file list; when such a path
  is in the resolved list, they are those of the loop over the files after it, started from
  the state after the files before it with \<^verbatim>\<open>skipped\<close> one higher and no request added.
\<close>

theorem missing_or_directory_skipped:
  assumes "fs w file = None \<or> fs w file = Some Directory"
  shows "upload_file w c file st = st\<lparr>skipped := skipped st + 1\<rparr>
       \<and> was_skipped st (upload_file w c file st)
       \<and> calls (upload_file w c file st) = calls st
       \<and> (\<forall>before after st0.
            upload_files w c (before @ file # after) st0
              = upload_files w c after
                  ((upload_files w c before st0)
                     \<lparr>skipped := skipped (upload_files w c before st0) + 1\<rparr>))
       \<and> (\<forall>sent. resolve w = Inr c \<and> ensure_branch w c = (sent, True)
            \<longrightarrow> exit_code (main w) = 0 \<and> summary (main w) \<noteq> None
                \<and> network (main w) = calls (upload_files w c (resolved_files w) (start sent))
                \<and> summary (main w) =
                     Some (success (upload_files w c (resolved_files w) (start sent)),
                           failed (upload_files w c (resolved_files w) (start sent)),
                           skipped (upload_files w c (resolved_files w) (start sent))))
       \<and> (\<forall>sent before after.
            resolve w = Inr c \<and> ensure_branch w c = (sent, True)
            \<and> resolved_files w = before @ file # after
            \<longrightarrow> network (main w)
                  = calls (upload_files w c after
                      ((upload_files w c before (start sent))
                         \<lparr>skipped := skipped (upload_files w c before (start sent)) + 1\<rparr>))
                \<and> summary (main w)
                  = Some (success (upload_files w c after
                            ((upload_files w c before (start sent))
                               \<lparr>skipped := skipped (upload_files w c before (start sent)) + 1\<rparr>)),
                          failed (upload_files w c after
                            ((upload_files w c before (start sent))
                               \<lparr>skipped := skipped (upload_files w c before (start sent)) + 1\<rparr>)),
                          skipped (upload_files w c after
                            ((upload_files w c before (start sent))
                               \<lparr>skipped := skipped (upload_files w c before (start sent)) + 1\<rparr>))))"
proof -
  have step: "upload_file w c file s = s\<lparr>skipped := skipped s + 1\<rparr>" for s
    using assms by (auto simp: upload_file_absent upload_file_directory)
  have loop: "upload_files w c (before @ file # after) st0
                = upload_files w c after
                    ((upload_files w c before st0)
                       \<lparr>skipped := skipped (upload_files w c before st0) + 1\<rparr>)"
    for before after st0
    by (simp add: upload_files_append step)
  have run: "exit_code (main w) = 0 \<and> summary (main w) \<noteq> None
                \<and> network (main w) = calls (upload_files w c (resolved_files w) (start sent))
                \<and> summary (main w) =
                     Some (success (upload_files w c (resolved_files w) (start sent)),
                           failed (upload_files w c (resolved_files w) (start sent)),
                           skipped (upload_files w c (resolved_files w) (start sent)))"
    if "resolve w = Inr c \<and> ensure_branch w c = (sent, True)" for sent
  proof -
    from that have r: "resolve w = Inr c" and e: "ensure_branch w c = (sent, True)"
      by simp_all
    show ?thesis
      by (simp add: main_over_resolved [OF r e])
  qed
  have part: "network (main w)
                  = calls (upload_files w c after
                      ((upload_files w c before (start sent))
                         \<lparr>skipped := skipped (upload_files w c before (start sent)) + 1\<rparr>))
                \<and> summary (main w)
                  = Some (success (upload_files w c after
                            ((upload_files w c before (start sent))
                               \<lparr>skipped := skipped (upload_files w c before (start sent)) + 1\<rparr>)),
                          failed (upload_files w c after
                            ((upload_files w c before (start sent))
                               \<lparr>skipped := skipped (upload_files w c before (start sent)) + 1\<rparr>)),
                          skipped (upload_files w c after
                            ((upload_files w c before (start sent))
                               \<lparr>skipped := skipped (upload_files w c before (start sent)) + 1\<rparr>)))"
    if "resolve w = Inr c \<and> ensure_branch w c = (sent, True)
          \<and> resolved_files w = before @ file # after" for sent before after
  proof -
    from that have r: "resolve w = Inr c" and e: "ensure_branch w c = (sent, True)"
      and f: "resolved_files w = before @ file # after"
      by simp_all
    show ?thesis
      by (simp only: main_over_resolved(2,3) [OF r e] f loop simp_thms)
  qed
  show ?thesis
    using run part loop by (simp add: step was_skipped_def)
qed

text \<open>
  Claim C10. In a run that reaches the loop, every file moves exactly one of the three
  counters up by one, and the three numbers of the summary add up to the number of files in
  the resolved set.
\<close>

theorem counters_add_up:
  assumes "resolve w = Inr c" and "ensure_branch w c = (sent, True)"
  shows "(\<exists>u f s. summary (main w) = Some (u, f, s) \<and> u + f + s = length (resolved_files w))
       \<and> exit_code (main w) = 0
       \<and> (\<forall>file st. uploaded st (upload_file w c file st)
                      \<or> has_failed st (upload_file w c file st)
                      \<or> was_skipped st (upload_file w c file st))"
proof -
  have "success (upload_files w c (c_files c) (start sent))
          + failed (upload_files w c (c_files c) (start sent))
          + skipped (upload_files w c (c_files c) (start sent)) = length (resolved_files w)"
    by (simp add: upload_files_sum start_def resolve_config(2) [OF assms(1)])
  then show ?thesis
    by (simp add: main_uploads [OF assms] upload_file_counts)
qed


subsection \<open>The branch\<close>

text \<open>
  What \<open>ensure_branch\<close> does when the answer to the first query says \<^verbatim>\<open>Not Found\<close>,
  by the creation policy and by the commit of the base branch; and the requests with method
  \<^verbatim>\<open>POST\<close> of a whole run, which are those of \<open>ensure_branch\<close>.
\<close>

lemma ensure_branch_absent_no_create:
  assumes "net w [] (ref_request c (c_branch c)) = Inr refResult"
    and "get_prop refResult ''message'' = Inr (Some (JStr ''Not Found''))"
    and "\<not> c_create c"
  shows "ensure_branch w c = ([ref_request c (c_branch c)], False)"
  using assms by (simp add: ensure_branch_def Let_def)

lemma base_commit_None:
  assumes "base_commit w c = None"
  shows "(\<exists>e. net w [ref_request c (c_branch c)] (ref_request c ''main'') = Inl e)
       \<or> (\<exists>mainRef. net w [ref_request c (c_branch c)] (ref_request c ''main'') = Inr mainRef
            \<and> ((\<exists>e. object_sha mainRef = Inl e) \<or> object_sha mainRef = Inr None
                \<or> (\<exists>sha. object_sha mainRef = Inr (Some sha) \<and> \<not> truthy (Some sha))))"
  using assms
  by (auto simp: base_commit_def split: sum.splits option.splits if_splits)

lemma base_commit_Some:
  assumes "base_commit w c = Some sha"
  shows "\<exists>mainRef. net w [ref_request c (c_branch c)] (ref_request c ''main'') = Inr mainRef
            \<and> object_sha mainRef = Inr (Some sha) \<and> truthy (Some sha)"
  using assms
  by (auto simp: base_commit_def split: sum.splits option.splits if_splits)

lemma ensure_branch_absent_no_base:
  assumes "net w [] (ref_request c (c_branch c)) = Inr refResult"
    and "get_prop refResult ''message'' = Inr (Some (JStr ''Not Found''))"
    and "c_create c"
    and "base_commit w c = None"
  shows "ensure_branch w c = ([ref_request c (c_branch c), ref_request c ''main''], False)"
  using base_commit_None [OF assms(4)] assms(1-3)
  by (elim disjE exE conjE) (simp_all add: ensure_branch_def Let_def)

lemma ensure_branch_absent_create:
  assumes "net w [] (ref_request c (c_branch c)) = Inr refResult"
    and "get_prop refResult ''message'' = Inr (Some (JStr ''Not Found''))"
    and "c_create c"
    and "base_commit w c = Some sha"
  shows "\<exists>ok. ensure_branch w c
           = ([ref_request c (c_branch c), ref_request c ''main'', create_ref_request c sha], ok)"
proof -
  obtain mainRef where m: "net w [ref_request c (c_branch c)] (ref_request c ''main'') = Inr mainRef"
    "object_sha mainRef = Inr (Some sha)" "truthy (Some sha)"
    using base_commit_Some [OF assms(4)] by blast
  show ?thesis
  proof (cases "net w [ref_request c (c_branch c), ref_request c ''main''] (create_ref_request c sha)")
    case (Inl e)
    with m assms(1-3) show ?thesis by (auto simp: ensure_branch_def Let_def)
  next
    case (Inr createResult)
    with m assms(1-3) show ?thesis
      by (cases "get_prop createResult ''ref''") (auto simp: ensure_branch_def Let_def)
  qed
qed

lemma main_network_posts:
  assumes "resolve w = Inr c" and "ensure_branch w c = (sent, ok)"
  shows "filter (\<lambda>r. meth r = POST) (network (main w)) = filter (\<lambda>r. meth r = POST) sent"
  using assms by (cases ok) (simp_all add: main_uploads main_stops upload_files_posts start_def)

text \<open>
  Claim C6. The run has passed its checks, the answer to the query for the target branch
  says \<^verbatim>\<open>Not Found\<close>, and creation is disabled. Then the run ends with exit code 1, that
  query is the only request it sent, so there is no upload, and there is no summary.
\<close>

theorem absent_branch_without_create_is_fatal:
  assumes "resolve w = Inr c"
    and "net w [] (ref_request c (c_branch c)) = Inr refResult"
    and "get_prop refResult ''message'' = Inr (Some (JStr ''Not Found''))"
    and "\<not> create (parseArgs w)"
  shows "exit_code (main w) = 1
       \<and> network (main w) = [ref_request c (c_branch c)]
       \<and> summary (main w) = None
       \<and> (\<forall>r \<in> set (network (main w)). meth r \<noteq> PUT)"
proof -
  from assms(4) have "\<not> c_create c"
    by (simp add: resolve_config(4) [OF assms(1)])
  then have "ensure_branch w c = ([ref_request c (c_branch c)], False)"
    by (rule ensure_branch_absent_no_create [OF assms(2,3)])
  then show ?thesis
    by (simp add: main_stops [OF assms(1)])
qed

text \<open>
  Claim C7. The run has passed its checks, the answer to the query for the target branch
  says \<^verbatim>\<open>Not Found\<close>, and creation is enabled. When the query for \<^verbatim>\<open>main\<close> gives a
  commit, the run sends exactly one \<^verbatim>\<open>POST\<close> request, the creation of the target ref,
  and its \<^verbatim>\<open>sha\<close> field is that commit. When the query gives no commit, the run ends
  with exit code 1 and sends no \<^verbatim>\<open>POST\<close> request.
\<close>

theorem absent_branch_created_from_main:
  assumes "resolve w = Inr c"
    and "net w [] (ref_request c (c_branch c)) = Inr refResult"
    and "get_prop refResult ''message'' = Inr (Some (JStr ''Not Found''))"
    and "create (parseArgs w)"
  shows "(\<forall>sha. base_commit w c = Some sha
            \<longrightarrow> filter (\<lambda>r. meth r = POST) (network (main w)) = [create_ref_request c sha]
                \<and> sha_field (create_ref_request c sha) = Some sha)
       \<and> (base_commit w c = None
            \<longrightarrow> exit_code (main w) = 1 \<and> filter (\<lambda>r. meth r = POST) (network (main w)) = [])"
proof (intro conjI allI impI)
  from assms(4) have cr: "c_create c"
    by (simp add: resolve_config(4) [OF assms(1)])
  {
    fix sha
    assume b: "base_commit w c = Some sha"
    obtain ok where "ensure_branch w c
           = ([ref_request c (c_branch c), ref_request c ''main'', create_ref_request c sha], ok)"
      using ensure_branch_absent_create [OF assms(2,3) cr b] by blast
    then show "filter (\<lambda>r. meth r = POST) (network (main w)) = [create_ref_request c sha]"
      by (simp add: main_network_posts [OF assms(1)])
    show "sha_field (create_ref_request c sha) = Some sha"
      by (simp add: sha_field_def create_ref_request_def api_request_def)
  }
  {
    assume b: "base_commit w c = None"
    have e: "ensure_branch w c = ([ref_request c (c_branch c), ref_request c ''main''], False)"
      by (rule ensure_branch_absent_no_base [OF assms(2,3) cr b])
    show "exit_code (main w) = 1"
      by (simp add: main_stops [OF assms(1) e])
    show "filter (\<lambda>r. meth r = POST) (network (main w)) = []"
      by (simp add: main_network_posts [OF assms(1) e])
  }
qed

subsection \<open>Dry run and the checks of the configuration\<close>

text \<open>
  Claim C4, as amended. The claim says that a run with dry-run enabled and a non-empty file
  set sends nothing and exits with 0. The checks of token and repository come before the
  dry-run exit, so: a run with dry-run enabled sends no request; and when the token and the
  repository are resolved and the file set is not empty, it exits with 0.
\<close>

theorem dry_run_sends_nothing:
  assumes "dryRun (parseArgs w)"
  shows "network (main w) = []
       \<and> (truthy_str (resolved_token w) \<and> truthy_str (resolved_repo w) \<and> resolved_files w \<noteq> []
            \<longrightarrow> exit_code (main w) = 0)"
  using assms by (simp add: main_def resolve_def)

text \<open>
  Claim C5, as amended. The claim says that a run without a token, without a repository or
  with an empty file set exits with 1 before any request. Help is handled before these
  checks and exits with 0, so: when help is not asked for, such a run exits with 1 and
  sends no request.
\<close>

theorem unresolved_configuration_is_fatal:
  assumes "\<not> help_opt (parseArgs w)"
    and "\<not> truthy_str (resolved_token w) \<or> \<not> truthy_str (resolved_repo w) \<or> resolved_files w = []"
  shows "exit_code (main w) = 1 \<and> network (main w) = []"
  using assms by (auto simp: main_def resolve_def)


section \<open>The properties in the example world\<close>

text \<open>
  With a token and no arguments, the example resolves to \<open>example_config\<close>, and its
  branch \<^verbatim>\<open>main\<close> is there; likewise with an explicit list of three paths.
\<close>

lemma example_resolve: "resolve (example [] (Some ''ghp_token'')) = Inr example_config"
  by (simp add: resolve_defs example_defs)

lemma example_branch:
  "ensure_branch (example [] (Some ''ghp_token'')) example_config
     = ([ref_request example_config ''main''], True)"
  by (simp add: ensure_branch_def Let_def request_defs example_defs)

lemma example_files_resolve:
  "resolve (example [''-f'', ''a.txt,missing.txt,src''] (Some ''ghp_token''))
     = Inr (example_config\<lparr>c_files := [''a.txt'', ''missing.txt'', ''src'']\<rparr>)"
  by (simp add: resolve_defs example_defs)

lemma example_files_branch:
  "ensure_branch (example [''-f'', ''a.txt,missing.txt,src''] (Some ''ghp_token''))
     (example_config\<lparr>c_files := [''a.txt'', ''missing.txt'', ''src'']\<rparr>)
     = ([ref_request example_config ''main''], True)"
  by (simp add: ensure_branch_def Let_def request_defs example_defs)


text \<open>
  Claim C2 in the example: \<^verbatim>\<open>old.txt\<close> is on the remote with hash \<^verbatim>\<open>01d\<close> and the
  upload carries it; the upload of \<^verbatim>\<open>bad.txt\<close> is answered without confirmation, the
  query for \<^verbatim>\<open>down.txt\<close> throws, \<^verbatim>\<open>locked.txt\<close> cannot be read, and each counts as
  failed; the run over \<^verbatim>\<open>down.txt\<close>, \<^verbatim>\<open>bad.txt\<close>, \<^verbatim>\<open>old.txt\<close> reports one
  uploaded and two failed.
\<close>

theorem update_upload_and_failures_witness:
  "fs (example [] (Some ''ghp_token'')) ''old.txt'' = Some (File (Inr ''omega''))
   \<and> content_hash (net (example [] (Some ''ghp_token'')) (calls (start []))
         (contents_request example_config ''old.txt'')) = Some (JStr ''01d'')
   \<and> calls (upload_file (example [] (Some ''ghp_token'')) example_config ''old.txt'' (start []))
       = [contents_request example_config ''old.txt'',
          put_request (example [] (Some ''ghp_token'')) example_config ''old.txt'' ''omega''
            (Some (JStr ''01d''))]
   \<and> sha_field (put_request (example [] (Some ''ghp_token'')) example_config ''old.txt''
         ''omega'' (Some (JStr ''01d''))) = Some (JStr ''01d'')
   \<and> has_failed (start []) (upload_file (example [] (Some ''ghp_token'')) example_config ''bad.txt'' (start []))
   \<and> has_failed (start []) (upload_file (example [] (Some ''ghp_token'')) example_config ''down.txt'' (start []))
   \<and> has_failed (start []) (upload_file (example [] (Some ''ghp_token'')) example_config ''locked.txt'' (start []))
   \<and> exit_code (main (example [] (Some ''ghp_token''))) = 0
   \<and> summary (main (example [''-f'', ''down.txt,bad.txt,old.txt''] (Some ''ghp_token''))) = Some (1, 2, 0)"
proof -
  let ?w = "example [] (Some ''ghp_token'')"
  let ?c = "example_config"
  have old: "fs ?w ''old.txt'' = Some (File (Inr ''omega''))"
    and bad: "fs ?w ''bad.txt'' = Some (File (Inr ''beta''))"
    and down: "fs ?w ''down.txt'' = Some (File (Inr ''delta''))"
    and locked: "fs ?w ''locked.txt'' = Some (File (Inl (ReadError ''EACCES'')))"
    by (simp_all add: example_defs)
  have h: "content_hash (net ?w (calls (start [])) (contents_request ?c ''old.txt'')) = Some (JStr ''01d'')"
    by (simp add: content_hash_def request_defs example_defs)
  have q_bad: "net ?w (calls (start [])) (contents_request ?c ''bad.txt'')
                 = Inr (JObj [(''message'', JStr ''Not Found'')])"
    by (simp add: request_defs example_defs)
  have p_bad: "\<not> confirmation (net ?w (calls (start []) @ [contents_request ?c ''bad.txt''])
                   (put_request ?w ?c ''bad.txt'' ''beta'' None))"
    by (simp add: confirmation_def request_defs example_defs)
  have q_down: "net ?w (calls (start [])) (contents_request ?c ''down.txt'')
                 = Inl (FetchError ''socket hang up'')"
    by (simp add: request_defs example_defs)
  have 1: "calls (upload_file ?w ?c ''old.txt'' (start []))
         = calls (start []) @ [contents_request ?c ''old.txt'',
             put_request ?w ?c ''old.txt'' ''omega'' (Some (JStr ''01d''))]
       \<and> sha_field (put_request ?w ?c ''old.txt'' ''omega'' (Some (JStr ''01d''))) = Some (JStr ''01d'')"
    using update_upload_and_failures [OF old, of "start []" ?c] h by simp
  have 2: "has_failed (start []) (upload_file ?w ?c ''bad.txt'' (start []))"
    using update_upload_and_failures [OF bad, of "start []" ?c] q_bad p_bad by simp
  have 3: "has_failed (start []) (upload_file ?w ?c ''down.txt'' (start []))"
    using update_upload_and_failures [OF down, of "start []" ?c] q_down by simp
  have 4: "has_failed (start []) (upload_file ?w ?c ''locked.txt'' (start []))"
    using update_upload_and_failures [OF locked, of "start []" ?c] by simp
  have 5: "exit_code (main ?w) = 0"
    using update_upload_and_failures [OF old, of "start []" ?c] example_resolve example_branch
    by simp
  have 6: "summary (main (example [''-f'', ''down.txt,bad.txt,old.txt''] (Some ''ghp_token''))) = Some (1, 2, 0)"
    by (simp add: main_def ensure_branch_def upload_file_def try_upload_def start_def Let_def
          resolve_defs request_defs example_defs)
  from old h 1 2 3 4 5 6 show ?thesis by (simp add: start_def)
qed

text \<open>
  The run over \<^verbatim>\<open>a.txt\<close>, \<^verbatim>\<open>old.txt\<close>, \<^verbatim>\<open>src\<close>, \<^verbatim>\<open>missing.txt\<close>: its
  configuration, its branch and its file list.
\<close>

lemma example_four_resolve:
  "resolve (example [''-f'', ''a.txt,old.txt,src,missing.txt''] (Some ''ghp_token''))
     = Inr (example_config\<lparr>c_files := [''a.txt'', ''old.txt'', ''src'', ''missing.txt'']\<rparr>)"
  by (simp add: resolve_defs example_defs)

lemma example_four_branch:
  "ensure_branch (example [''-f'', ''a.txt,old.txt,src,missing.txt''] (Some ''ghp_token''))
     (example_config\<lparr>c_files := [''a.txt'', ''old.txt'', ''src'', ''missing.txt'']\<rparr>)
     = ([ref_request example_config ''main''], True)"
  by (simp add: ensure_branch_def Let_def request_defs example_defs)

lemma example_four_files:
  "resolved_files (example [''-f'', ''a.txt,old.txt,src,missing.txt''] (Some ''ghp_token''))
     = [''a.txt'', ''old.txt'', ''src''] @ ''missing.txt'' # []"
  by (simp add: resolve_defs example_defs)

text \<open>
  Claim C3 in the example: \<^verbatim>\<open>missing.txt\<close> is not on the disk and \<^verbatim>\<open>src\<close> is a
  directory; the run over \<^verbatim>\<open>a.txt\<close>, \<^verbatim>\<open>old.txt\<close>, \<^verbatim>\<open>src\<close>,
  \<^verbatim>\<open>missing.txt\<close> reports two uploaded and two skipped, sends five requests (one for
  the branch, two for each uploaded file) and exits with 0.
\<close>

theorem missing_or_directory_skipped_witness:
  "fs (example [''-f'', ''a.txt,old.txt,src,missing.txt''] (Some ''ghp_token'')) ''missing.txt'' = None
   \<and> fs (example [''-f'', ''a.txt,old.txt,src,missing.txt''] (Some ''ghp_token'')) ''src'' = Some Directory
   \<and> resolved_files (example [''-f'', ''a.txt,old.txt,src,missing.txt''] (Some ''ghp_token''))
       = [''a.txt'', ''old.txt'', ''src'', ''missing.txt'']
   \<and> upload_file (example [''-f'', ''a.txt,old.txt,src,missing.txt''] (Some ''ghp_token''))
         (example_config\<lparr>c_files := [''a.txt'', ''old.txt'', ''src'', ''missing.txt'']\<rparr>)
         ''missing.txt'' (start [])
       = \<lparr>success = 0, failed = 0, skipped = 1, calls = []\<rparr>
   \<and> upload_file (example [''-f'', ''a.txt,old.txt,src,missing.txt''] (Some ''ghp_token''))
         (example_config\<lparr>c_files := [''a.txt'', ''old.txt'', ''src'', ''missing.txt'']\<rparr>)
         ''src'' (start [])
       = \<lparr>success = 0, failed = 0, skipped = 1, calls = []\<rparr>
   \<and> exit_code (main (example [''-f'', ''a.txt,old.txt,src,missing.txt''] (Some ''ghp_token''))) = 0
   \<and> summary (main (example [''-f'', ''a.txt,old.txt,src,missing.txt''] (Some ''ghp_token'')))
       = Some (2, 0, 2)
   \<and> length (network (main (example [''-f'', ''a.txt,old.txt,src,missing.txt''] (Some ''ghp_token''))))
       = 5"
proof -
  let ?w = "example [''-f'', ''a.txt,old.txt,src,missing.txt''] (Some ''ghp_token'')"
  let ?c = "example_config\<lparr>c_files := [''a.txt'', ''old.txt'', ''src'', ''missing.txt'']\<rparr>"
  let ?sent = "[ref_request example_config ''main'']"
  have missing: "fs ?w ''missing.txt'' = None \<or> fs ?w ''missing.txt'' = Some Directory"
    and src: "fs ?w ''src'' = None \<or> fs ?w ''src'' = Some Directory"
    by (simp_all add: example_defs)
  have before: "upload_files ?w ?c [''a.txt'', ''old.txt'', ''src''] (start ?sent)
                  = \<lparr>success = 2, failed = 0, skipped = 1,
                     calls = [ref_request example_config ''main'',
                              contents_request ?c ''a.txt'',
                              put_request ?w ?c ''a.txt'' ''alpha'' None,
                              contents_request ?c ''old.txt'',
                              put_request ?w ?c ''old.txt'' ''omega'' (Some (JStr ''01d''))]\<rparr>"
    by (simp add: upload_file_def try_upload_def start_def Let_def request_defs example_defs)
  have 1: "upload_file ?w ?c ''missing.txt'' (start []) = (start [])\<lparr>skipped := skipped (start []) + 1\<rparr>"
    using missing_or_directory_skipped [OF missing, of ?c "start []"] by simp
  have 2: "upload_file ?w ?c ''src'' (start []) = (start [])\<lparr>skipped := skipped (start []) + 1\<rparr>"
    using missing_or_directory_skipped [OF src, of ?c "start []"] by simp
  have 3: "exit_code (main ?w) = 0"
    using missing_or_directory_skipped [OF missing, of ?c "start []"]
      example_four_resolve example_four_branch by simp
  have run: "network (main ?w)
               = calls (upload_files ?w ?c []
                   ((upload_files ?w ?c [''a.txt'', ''old.txt'', ''src''] (start ?sent))
                      \<lparr>skipped := skipped (upload_files ?w ?c [''a.txt'', ''old.txt'', ''src''] (start ?sent)) + 1\<rparr>))
           \<and> summary (main ?w)
               = Some (success (upload_files ?w ?c []
                         ((upload_files ?w ?c [''a.txt'', ''old.txt'', ''src''] (start ?sent))
                            \<lparr>skipped := skipped (upload_files ?w ?c [''a.txt'', ''old.txt'', ''src''] (start ?sent)) + 1\<rparr>)),
                       failed (upload_files ?w ?c []
                         ((upload_files ?w ?c [''a.txt'', ''old.txt'', ''src''] (start ?sent))
                            \<lparr>skipped := skipped (upload_files ?w ?c [''a.txt'', ''old.txt'', ''src''] (start ?sent)) + 1\<rparr>)),
                       skipped (upload_files ?w ?c []
                         ((upload_files ?w ?c [''a.txt'', ''old.txt'', ''src''] (start ?sent))
                            \<lparr>skipped := skipped (upload_files ?w ?c [''a.txt'', ''old.txt'', ''src''] (start ?sent)) + 1\<rparr>)))"
    using missing_or_directory_skipped [OF missing, of ?c "start []"]
      example_four_resolve example_four_branch example_four_files
    by blast
  have 4: "summary (main ?w) = Some (2, 0, 2)" and 5: "length (network (main ?w)) = 5"
    using run unfolding before by simp_all
  have 6: "fs ?w ''missing.txt'' = None" "fs ?w ''src'' = Some Directory"
    by (simp_all add: example_defs)
  have 7: "resolved_files ?w = [''a.txt'', ''old.txt'', ''src'', ''missing.txt'']"
    using example_four_files by simp
  from 1 2 3 4 5 6 7 show ?thesis by (simp add: start_def)
qed

text \<open>Claim C10 in the example: three files, and the three counters add up to three.\<close>

theorem counters_add_up_witness:
  "resolve (example [''-f'', ''a.txt,missing.txt,src''] (Some ''ghp_token''))
     = Inr (example_config\<lparr>c_files := [''a.txt'', ''missing.txt'', ''src'']\<rparr>)
   \<and> ensure_branch (example [''-f'', ''a.txt,missing.txt,src''] (Some ''ghp_token''))
         (example_config\<lparr>c_files := [''a.txt'', ''missing.txt'', ''src'']\<rparr>)
       = ([ref_request example_config ''main''], True)
   \<and> length (resolved_files (example [''-f'', ''a.txt,missing.txt,src''] (Some ''ghp_token''))) = 3
   \<and> (\<exists>u f s. summary (main (example [''-f'', ''a.txt,missing.txt,src''] (Some ''ghp_token'')))
                  = Some (u, f, s) \<and> u + f + s = 3)
   \<and> exit_code (main (example [''-f'', ''a.txt,missing.txt,src''] (Some ''ghp_token''))) = 0"
proof -
  let ?w = "example [''-f'', ''a.txt,missing.txt,src''] (Some ''ghp_token'')"
  have n: "length (resolved_files ?w) = 3"
    by (simp add: resolve_defs example_defs)
  from counters_add_up [OF example_files_resolve example_files_branch] n
  have "(\<exists>u f s. summary (main ?w) = Some (u, f, s) \<and> u + f + s = 3) \<and> exit_code (main ?w) = 0"
    by simp
  with n example_files_resolve example_files_branch show ?thesis by simp
qed

text \<open>Claim C4, as amended, in the example: \<^verbatim>\<open>--dry-run\<close> with a token.\<close>

theorem dry_run_sends_nothing_witness:
  "dryRun (parseArgs (example [''--dry-run''] (Some ''ghp_token'')))
   \<and> network (main (example [''--dry-run''] (Some ''ghp_token''))) = []
   \<and> exit_code (main (example [''--dry-run''] (Some ''ghp_token''))) = 0"
proof -
  let ?w = "example [''--dry-run''] (Some ''ghp_token'')"
  have d: "dryRun (parseArgs ?w)"
    by (simp add: parseArgs_def example_defs)
  have r: "truthy_str (resolved_token ?w)" "truthy_str (resolved_repo ?w)" "resolved_files ?w \<noteq> []"
    by (simp_all add: resolve_defs example_defs)
  from dry_run_sends_nothing [OF d] r d show ?thesis by simp
qed

text \<open>
  Claim C4 as stated fails at \<^verbatim>\<open>--dry-run\<close> without a token: dry-run is enabled, the
  file set has two files, and the run exits with 1.
\<close>

theorem dry_run_without_token_fails:
  "dryRun (parseArgs (example [''--dry-run''] None))
   \<and> resolved_files (example [''--dry-run''] None) = [''a.txt'', ''old.txt'']
   \<and> exit_code (main (example [''--dry-run''] None)) = 1"
  by (simp add: main_def resolve_defs example_defs)

text \<open>
  Claim C5, as amended, in the example: without a token, without a remote URL, and
  without tracked files.
\<close>

theorem unresolved_configuration_is_fatal_witness:
  "\<not> truthy_str (resolved_token (example [] None))
   \<and> exit_code (main (example [] None)) = 1 \<and> network (main (example [] None)) = []
   \<and> \<not> truthy_str (resolved_repo ((example [] (Some ''ghp_token''))\<lparr>git_remote := None\<rparr>))
   \<and> exit_code (main ((example [] (Some ''ghp_token''))\<lparr>git_remote := None\<rparr>)) = 1
   \<and> resolved_files ((example [] (Some ''ghp_token''))\<lparr>git_ls_files := None\<rparr>) = []
   \<and> exit_code (main ((example [] (Some ''ghp_token''))\<lparr>git_ls_files := None\<rparr>)) = 1"
proof -
  let ?w1 = "example [] None"
  let ?w2 = "(example [] (Some ''ghp_token''))\<lparr>git_remote := None\<rparr>"
  let ?w3 = "(example [] (Some ''ghp_token''))\<lparr>git_ls_files := None\<rparr>"
  have h1: "\<not> help_opt (parseArgs ?w1)" and h2: "\<not> help_opt (parseArgs ?w2)"
    and h3: "\<not> help_opt (parseArgs ?w3)"
    by (simp_all add: parseArgs_def example_defs)
  have t: "\<not> truthy_str (resolved_token ?w1)"
    and r: "\<not> truthy_str (resolved_repo ?w2)"
    and f: "resolved_files ?w3 = []"
    by (simp_all add: resolve_defs example_defs)
  from t have a1: "\<not> truthy_str (resolved_token ?w1) \<or> \<not> truthy_str (resolved_repo ?w1)
                    \<or> resolved_files ?w1 = []" by simp
  from r have a2: "\<not> truthy_str (resolved_token ?w2) \<or> \<not> truthy_str (resolved_repo ?w2)
                    \<or> resolved_files ?w2 = []" by simp
  from f have a3: "\<not> truthy_str (resolved_token ?w3) \<or> \<not> truthy_str (resolved_repo ?w3)
                    \<or> resolved_files ?w3 = []" by simp
  from unresolved_configuration_is_fatal [OF h1 a1] unresolved_configuration_is_fatal [OF h2 a2]
    unresolved_configuration_is_fatal [OF h3 a3] t r f
  show ?thesis by simp
qed

text \<open>
  Claim C5 as stated fails at \<^verbatim>\<open>--help\<close> without a token: no token is resolved, and
  the run exits with 0.
\<close>

theorem help_without_token_exits_zero:
  "\<not> truthy_str (resolved_token (example [''--help''] None))
   \<and> exit_code (main (example [''--help''] None)) = 0"
  by (simp add: main_def resolve_defs example_defs)

text \<open>
  Claim C6 in the example: the branch \<^verbatim>\<open>feature\<close> is not on the remote and
  \<^verbatim>\<open>--no-create\<close> is given.
\<close>

theorem absent_branch_without_create_is_fatal_witness:
  "resolve (example [''feature'', ''--no-create''] (Some ''ghp_token''))
     = Inr (example_config\<lparr>c_branch := ''feature'', c_create := False\<rparr>)
   \<and> net (example [''feature'', ''--no-create''] (Some ''ghp_token'')) []
         (ref_request (example_config\<lparr>c_branch := ''feature'', c_create := False\<rparr>) ''feature'')
       = Inr (JObj [(''message'', JStr ''Not Found'')])
   \<and> \<not> create (parseArgs (example [''feature'', ''--no-create''] (Some ''ghp_token'')))
   \<and> exit_code (main (example [''feature'', ''--no-create''] (Some ''ghp_token''))) = 1
   \<and> network (main (example [''feature'', ''--no-create''] (Some ''ghp_token'')))
       = [ref_request (example_config\<lparr>c_branch := ''feature'', c_create := False\<rparr>) ''feature'']"
proof -
  let ?w = "example [''feature'', ''--no-create''] (Some ''ghp_token'')"
  let ?c = "example_config\<lparr>c_branch := ''feature'', c_create := False\<rparr>"
  have r: "resolve ?w = Inr ?c"
    by (simp add: resolve_defs example_defs)
  have b: "c_branch ?c = ''feature''"
    by simp
  have q: "net ?w [] (ref_request ?c (c_branch ?c)) = Inr (JObj [(''message'', JStr ''Not Found'')])"
    by (simp add: request_defs example_defs)
  have m: "get_prop (JObj [(''message'', JStr ''Not Found'')]) ''message''
             = Inr (Some (JStr ''Not Found''))"
    by simp
  have n: "\<not> create (parseArgs ?w)"
    by (simp add: parseArgs_def example_defs)
  from absent_branch_without_create_is_fatal [OF r q m n] r q n show ?thesis
    by (simp only: b simp_thms)
qed

text \<open>
  Claim C7 in the example: the branch \<^verbatim>\<open>feature\<close> is created from the commit
  \<^verbatim>\<open>c0ffee\<close> of \<^verbatim>\<open>main\<close>; on a remote without \<^verbatim>\<open>main\<close> the run exits with 1 and
  creates nothing.
\<close>

theorem absent_branch_created_from_main_witness:
  "resolve (example [''feature''] (Some ''ghp_token'')) = Inr (example_config\<lparr>c_branch := ''feature''\<rparr>)
   \<and> create (parseArgs (example [''feature''] (Some ''ghp_token'')))
   \<and> base_commit (example [''feature''] (Some ''ghp_token'')) (example_config\<lparr>c_branch := ''feature''\<rparr>)
       = Some (JStr ''c0ffee'')
   \<and> filter (\<lambda>r. meth r = POST) (network (main (example [''feature''] (Some ''ghp_token''))))
       = [create_ref_request (example_config\<lparr>c_branch := ''feature''\<rparr>) (JStr ''c0ffee'')]
   \<and> base_commit ((example [''feature''] (Some ''ghp_token''))\<lparr>net := nothing_there\<rparr>)
         (example_config\<lparr>c_branch := ''feature''\<rparr>) = None
   \<and> exit_code (main ((example [''feature''] (Some ''ghp_token''))\<lparr>net := nothing_there\<rparr>)) = 1
   \<and> filter (\<lambda>r. meth r = POST)
         (network (main ((example [''feature''] (Some ''ghp_token''))\<lparr>net := nothing_there\<rparr>))) = []"
proof -
  let ?w = "example [''feature''] (Some ''ghp_token'')"
  let ?v = "(example [''feature''] (Some ''ghp_token''))\<lparr>net := nothing_there\<rparr>"
  let ?c = "example_config\<lparr>c_branch := ''feature''\<rparr>"
  have r: "resolve ?w = Inr ?c" and r': "resolve ?v = Inr ?c"
    by (simp_all add: resolve_defs example_defs)
  have q: "net ?w [] (ref_request ?c (c_branch ?c)) = Inr (JObj [(''message'', JStr ''Not Found'')])"
    and q': "net ?v [] (ref_request ?c (c_branch ?c)) = Inr (JObj [(''message'', JStr ''Not Found'')])"
    by (simp_all add: request_defs example_defs)
  have m: "get_prop (JObj [(''message'', JStr ''Not Found'')]) ''message''
             = Inr (Some (JStr ''Not Found''))"
    by simp
  have n: "create (parseArgs ?w)" and n': "create (parseArgs ?v)"
    by (simp_all add: parseArgs_def example_defs)
  have b: "base_commit ?w ?c = Some (JStr ''c0ffee'')"
    and b': "base_commit ?v ?c = None"
    by (simp_all add: base_commit_def object_sha_def request_defs example_defs)
  from absent_branch_created_from_main [OF r q m n] b
  have 1: "filter (\<lambda>r. meth r = POST) (network (main ?w)) = [create_ref_request ?c (JStr ''c0ffee'')]"
    by simp
  from absent_branch_created_from_main [OF r' q' m n'] b'
  have 2: "exit_code (main ?v) = 1 \<and> filter (\<lambda>r. meth r = POST) (network (main ?v)) = []"
    by simp
  from r n b b' 1 2 show ?thesis by (simp only: simp_thms)
qed

end
